theory Spec2Isabelle
  imports Complex_Main
begin

section \<open>Configuration\<close>

text \<open>
  The parsed command line (\<^verbatim>\<open>cfg\<close>), restricted to the options that
  \<^verbatim>\<open>main.py\<close>, \<^verbatim>\<open>models/utils.py\<close> and \<^verbatim>\<open>models/mobilenetv2.py\<close> read.
  Python integers are \<^typ>\<open>int\<close>. The float \<^verbatim>\<open>width_mult\<close> is modelled by the
  rational number it denotes: arithmetic on it is exact here (Python rounds every product
  to the nearest double), and there is neither infinity nor NaN.
\<close>

record cfg =
  arch :: string
  layers :: int
  width_mult :: rat
  dataset :: string
  bitw :: int
  bita :: int
  first_conv_bitw :: int
  last_fc_bitw :: int
  symmetric :: bool
  run_type :: string
  load :: "string option"
  resume :: bool
  step_location :: string

section \<open>Python built-ins used by the source\<close>

datatype error =
    AssertionError
  | ZeroDivisionError
  | ValueError
  | Exception string

definition digit_char :: "nat \<Rightarrow> char" where
  "digit_char d = ''0123456789'' ! (d mod 10)"

text \<open>\<^verbatim>\<open>str(n)\<close> for a non-negative integer, most significant digit first.\<close>

function str_nat :: "nat \<Rightarrow> string" where
  "str_nat n = (if n < 10 then [digit_char n] else str_nat (n div 10) @ [digit_char n])"
  by pat_completeness auto
termination
  by (relation "measure id") auto

declare str_nat.simps [simp del]

text \<open>\<^verbatim>\<open>f'{i}'\<close> for an integer \<^verbatim>\<open>i\<close>.\<close>

definition str_int :: "int \<Rightarrow> string" where
  "str_int i = (if i < 0 then CHR ''-'' # str_nat (nat (- i)) else str_nat (nat i))"

text \<open>
  The digits after the decimal point of a fraction \<open>0 \<le> r < 1\<close>, until the expansion
  ends; Python never prints more than 17 significant digits of a float.
\<close>

fun frac_digits :: "nat \<Rightarrow> rat \<Rightarrow> string" where
  "frac_digits 0 r = []"
| "frac_digits (Suc k) r =
     (if r = 0 then []
      else digit_char (nat \<lfloor>10 * r\<rfloor>) # frac_digits k (10 * r - of_int \<lfloor>10 * r\<rfloor>))"

text \<open>
  \<^verbatim>\<open>f'{x}'\<close> for a float \<^verbatim>\<open>x\<close>: Python prints the shortest decimal that reads
  back as \<^verbatim>\<open>x\<close>, in positional notation when \<open>1e-4 \<le> |x| < 1e16\<close>, always with a
  digit after the point (\<^verbatim>\<open>1.0\<close>, \<^verbatim>\<open>0.5\<close>, \<^verbatim>\<open>0.35\<close>). The model prints the
  decimal expansion of the rational that stands for the float; the exponent notation
  that Python uses outside that range is not modelled.
\<close>

definition str_float :: "rat \<Rightarrow> string" where
  "str_float x =
     (let a = \<bar>x\<bar>;
          ip = \<lfloor>a\<rfloor>;
          fr = frac_digits 17 (a - of_int ip)
      in (if x < 0 then ''-'' else '''') @ str_nat (nat ip) @ ''.''
           @ (if fr = [] then ''0'' else fr))"

section \<open>\<^verbatim>\<open>models/utils.py\<close>\<close>

text \<open>
  \<^verbatim>\<open>set_arch_name\<close> reads \<^verbatim>\<open>cfg\<close>, copies \<^verbatim>\<open>cfg.arch\<close> and returns a new
  string. It assigns no global and no attribute, so the model is a function of the
  configuration alone.
\<close>

definition set_arch_name :: "'a cfg_scheme \<Rightarrow> string" where
  "set_arch_name c =
     (let arch_name = arch c in
      if arch c \<in> set [''resnet'', ''preactresnet'']
      then arch_name @ ''-'' @ str_int (layers c)
      else if arch c \<in> set [''mobilenetv2'']
      then (if width_mult c \<noteq> 1
            then arch_name @ ''x'' @ str_float (width_mult c)
            else arch_name)
      else arch_name)"

section \<open>\<^verbatim>\<open>models/mobilenetv2.py\<close>\<close>

subsection \<open>Layers and module state\<close>

text \<open>
  The layer classes \<^verbatim>\<open>QuantConv2d\<close>, \<^verbatim>\<open>QuantReLU6\<close>, \<^verbatim>\<open>QuantIdentity\<close> and
  \<^verbatim>\<open>QuantLinear\<close> belong to the quantizer module \<^verbatim>\<open>qnn\<close> that is handed to
  \<^verbatim>\<open>set_model\<close>, and \<^verbatim>\<open>BatchNorm2d\<close> to the tensor library; neither is code of
  this repository. A constructor call is modelled by the value that records its
  arguments, so constructing a layer always succeeds here. \<^verbatim>\<open>kernel_size\<close> is kept
  as the pair that the weight initialisation reads (\<^verbatim>\<open>m.kernel_size[0]\<close>,
  \<^verbatim>\<open>m.kernel_size[1]\<close>).
\<close>

datatype layer =
    QuantConv2d (in_channels: int) (out_channels: int) (kernel_size: "int \<times> int")
      (conv_stride: int) (padding: int) (groups: int) (has_bias: bool)
      (nbits: int) (symm: bool)
  | QuantReLU6 bool int
  | QuantIdentity int bool
  | BatchNorm2d (num_features: int)
  | QuantLinear (in_features: int) (out_features: int) int bool

text \<open>
  The module-level dictionary \<^verbatim>\<open>qcfg\<close> with its five keys, and the two module-level
  globals that \<^verbatim>\<open>set_model\<close> assigns. A global that has not been assigned yet is
  \<open>None\<close>. The quantizer module itself is opaque (type \<open>'q\<close>).
\<close>

record qcfg =
  q_bitw :: int
  q_bita :: int
  q_first_conv_bitw :: int
  q_last_fc_bitw :: int
  q_symmetric :: bool

record 'q globals =
  g_qnn :: "'q option"
  g_qcfg :: "qcfg option"

text \<open>
  The layer helpers read the global \<^verbatim>\<open>qcfg\<close>; the model hands them its value.
  Default arguments of the source are written out at every call.
\<close>

definition conv2d ::
    "qcfg \<Rightarrow> int \<Rightarrow> int \<Rightarrow> int \<Rightarrow> int \<Rightarrow> int \<Rightarrow> int \<Rightarrow> bool \<Rightarrow> int option \<Rightarrow> layer" where
  "conv2d q inplanes out_planes ksize strd pad grps bias bw =
     QuantConv2d inplanes out_planes (ksize, ksize) strd pad grps bias
       (case bw of None \<Rightarrow> q_bitw q | Some b \<Rightarrow> b) (q_symmetric q)"

definition relu6 :: "qcfg \<Rightarrow> bool \<Rightarrow> layer" where
  "relu6 q inplace = QuantReLU6 inplace (q_bita q)"

definition identity :: "qcfg \<Rightarrow> int option \<Rightarrow> layer" where
  "identity q bw =
     QuantIdentity (case bw of None \<Rightarrow> q_bitw q | Some b \<Rightarrow> b) (q_symmetric q)"

text \<open>
  Modules. \<^verbatim>\<open>ConvBNReLU\<close> has the attribute \<^verbatim>\<open>quant_act\<close> only when it was
  constructed with \<^verbatim>\<open>quant_input=False\<close>: the attribute is an option.
  \<^verbatim>\<open>InvertedResidual\<close> keeps its stride, \<^verbatim>\<open>use_res_connect\<close> and the
  \<^verbatim>\<open>nn.Sequential\<close> \<^verbatim>\<open>conv\<close>.
\<close>

datatype nn_module =
    Leaf layer
  | ConvBNReLU (quant_act: "layer option") (conv: layer) (bn: layer) (act: layer)
  | InvertedResidual (stride: int) (use_res_connect: bool) (conv_seq: "nn_module list")

definition ConvBNReLU_init ::
    "qcfg \<Rightarrow> int \<Rightarrow> int \<Rightarrow> int \<Rightarrow> int \<Rightarrow> int \<Rightarrow> int option \<Rightarrow> bool \<Rightarrow> nn_module" where
  "ConvBNReLU_init q in_planes out_planes ksize strd grps bw quant_input =
     (let pad = (if ksize > 1 then (ksize - 1) div 2 else 0)
      in ConvBNReLU
           (if \<not> quant_input then Some (identity q bw) else None)
           (conv2d q in_planes out_planes ksize strd pad grps False bw)
           (BatchNorm2d out_planes)
           (relu6 q False))"

text \<open>
  \<^verbatim>\<open>expand_ratio\<close> is an integer at every call in the repository (the \<^verbatim>\<open>t\<close> column
  of the setting tables), so \<^verbatim>\<open>int(round(inp * expand_ratio))\<close> is the integer
  product. The \<^verbatim>\<open>assert\<close> is the only way the constructor fails.
\<close>

definition InvertedResidual_init ::
    "qcfg \<Rightarrow> int \<Rightarrow> int \<Rightarrow> int \<Rightarrow> int \<Rightarrow> bool \<Rightarrow> error + nn_module" where
  "InvertedResidual_init q inp oup strd expand_ratio quant_input =
     (if strd \<notin> set [1, 2] then Inl AssertionError
      else
        let hidden_dim = inp * expand_ratio;
            res = (strd = 1 \<and> inp = oup);
            pw = (if expand_ratio \<noteq> 1
                  then [ConvBNReLU_init q inp hidden_dim 1 1 1 None quant_input]
                  else []);
            ls = pw @ [ConvBNReLU_init q hidden_dim hidden_dim 3 strd hidden_dim None True,
                       Leaf (conv2d q hidden_dim oup 1 1 0 1 False None),
                       Leaf (BatchNorm2d oup)]
        in Inr (InvertedResidual strd res ls))"

subsection \<open>Forward passes\<close>

text \<open>
  The layers are not interpreted: a tensor is the term that says which layers were
  applied to the input, in which order, and where two tensors were added.
\<close>

datatype tensor =
    Input nat
  | Apply layer tensor
  | Add tensor tensor

fun forward :: "nn_module \<Rightarrow> tensor \<Rightarrow> tensor"
  and sequential :: "nn_module list \<Rightarrow> tensor \<Rightarrow> tensor" where
  "forward (Leaf l) x = Apply l x"
| "forward (ConvBNReLU qa c b a) x =
     (let x' = (case qa of Some qi \<Rightarrow> Apply qi x | None \<Rightarrow> x)
      in Apply a (Apply b (Apply c x')))"
| "forward (InvertedResidual s res ms) x =
     (if res then Add x (sequential ms x) else sequential ms x)"
| "sequential [] x = x"
| "sequential (m # ms) x = sequential ms (forward m x)"

subsection \<open>Building the networks\<close>

text \<open>\<^verbatim>\<open>int(x)\<close> of a float truncates towards zero.\<close>

definition py_int :: "rat \<Rightarrow> int" where
  "py_int x = (if 0 \<le> x then \<lfloor>x\<rfloor> else \<lceil>x\<rceil>)"

text \<open>
  \<^verbatim>\<open>int(s)\<close> of a string, for strings of decimal digits (the only ones
  \<^verbatim>\<open>set_model\<close> passes: \<^verbatim>\<open>"10"\<close> and \<^verbatim>\<open>"100"\<close>); the signs, blanks and
  underscores that Python also accepts are not modelled and count as malformed.
\<close>

fun int_of_digits :: "string \<Rightarrow> int \<Rightarrow> error + int" where
  "int_of_digits [] acc = Inr acc"
| "int_of_digits (ch # cs) acc =
     (if (48::nat) \<le> of_char ch \<and> of_char ch \<le> (57::nat)
      then int_of_digits cs (10 * acc + (of_char ch - 48))
      else Inl ValueError)"

definition py_int_of_str :: "string \<Rightarrow> error + int" where
  "py_int_of_str s = (if s = [] then Inl ValueError else int_of_digits s 0)"

text \<open>
  The two nested \<^verbatim>\<open>for\<close> statements over the setting table. The state is the list
  \<^verbatim>\<open>features\<close> and the variable \<^verbatim>\<open>input_channel\<close>.
\<close>

fun blocks_loop ::
    "qcfg \<Rightarrow> int \<Rightarrow> int \<Rightarrow> bool \<Rightarrow> int \<Rightarrow> nat list \<Rightarrow> nn_module list \<times> int
      \<Rightarrow> error + nn_module list \<times> int" where
  "blocks_loop q t s qi output_channel [] st = Inr st"
| "blocks_loop q t s qi output_channel (i # is) (feats, input_channel) =
     (case InvertedResidual_init q input_channel output_channel
             (if i = 0 then s else 1) t qi of
        Inl e \<Rightarrow> Inl e
      | Inr b \<Rightarrow> blocks_loop q t s qi output_channel is (feats @ [b], output_channel))"

fun stages_loop ::
    "qcfg \<Rightarrow> rat \<Rightarrow> (int \<times> int \<times> nat \<times> int \<times> bool) list \<Rightarrow> nn_module list \<times> int
      \<Rightarrow> error + nn_module list \<times> int" where
  "stages_loop q wm [] st = Inr st"
| "stages_loop q wm ((t, c, n, s, qi) # rest) st =
     (let output_channel = py_int (of_int c * wm)
      in case blocks_loop q t s qi output_channel [0..<n] st of
           Inl e \<Rightarrow> Inl e
         | Inr st' \<Rightarrow> stages_loop q wm rest st')"

text \<open>
  Weight initialisation. \<^verbatim>\<open>self.modules()\<close> visits every module; only the layers
  can be an instance of one of the three classes tested, so the model visits the layers,
  in the order of registration. A parameter is described by the distribution it was
  drawn from (\<open>Normal mean std\<close>, the two arguments of \<^verbatim>\<open>normal_\<close>) or by the constant
  it was filled with. \<^verbatim>\<open>2. / n\<close> raises \<^verbatim>\<open>ZeroDivisionError\<close> for \<^verbatim>\<open>n = 0\<close>,
  and \<^verbatim>\<open>math.sqrt\<close> raises \<^verbatim>\<open>ValueError\<close> on a negative number. A float
  argument of \<^verbatim>\<open>normal_\<close> is kept exactly: as the rational it denotes, or as the
  square root of one; \<open>value_of\<close> is the real number meant, and \<open>variance\<close> the square
  of the standard deviation.
\<close>

datatype pyfloat = Exact rat | Sqrt rat

definition value_of :: "pyfloat \<Rightarrow> real" where
  "value_of f = (case f of Exact r \<Rightarrow> of_rat r | Sqrt r \<Rightarrow> sqrt (of_rat r))"

datatype dist = Normal (mean: pyfloat) (std: pyfloat) | Ones | Zeros

definition variance :: "dist \<Rightarrow> rat" where
  "variance d = (case std d of Exact r \<Rightarrow> r * r | Sqrt r \<Rightarrow> r)"

datatype init = Untouched | Init (weight: dist) (bias: "dist option")

fun modules_of :: "nn_module \<Rightarrow> layer list" where
  "modules_of (Leaf l) = [l]"
| "modules_of (ConvBNReLU qa c b a) = (case qa of None \<Rightarrow> [] | Some qi \<Rightarrow> [qi]) @ [c, b, a]"
| "modules_of (InvertedResidual s res ms) = concat (map modules_of ms)"

definition init_module :: "layer \<Rightarrow> error + init" where
  "init_module m =
     (case m of
        QuantConv2d ic oc ks st pd g b nb sy \<Rightarrow>
          (let n = fst ks * snd ks * oc
           in if n = 0 then Inl ZeroDivisionError
              else if (2::rat) / of_int n < 0 then Inl ValueError
              else Inr (Init (Normal (Exact 0) (Sqrt (2 / of_int n)))
                             (if b then Some Zeros else None)))
      | BatchNorm2d f \<Rightarrow> Inr (Init Ones (Some Zeros))
      | QuantLinear fi fo nb sy \<Rightarrow>
          Inr (Init (Normal (Exact 0) (Exact (1 / 100))) (Some Zeros))
      | _ \<Rightarrow> Inr Untouched)"

fun weight_initialization :: "layer list \<Rightarrow> error + (layer \<times> init) list" where
  "weight_initialization [] = Inr []"
| "weight_initialization (m # ms) =
     (case init_module m of
        Inl e \<Rightarrow> Inl e
      | Inr p \<Rightarrow>
          (case weight_initialization ms of
             Inl e \<Rightarrow> Inl e
           | Inr ps \<Rightarrow> Inr ((m, p) # ps)))"

text \<open>
  The two network classes. \<open>parameters\<close> lists, for every layer of the network in the
  order of \<^verbatim>\<open>self.modules()\<close>, what the weight initialisation did to it.
\<close>

record mobilenet =
  last_channel :: int
  features :: "nn_module list"
  classifier :: "layer list"
  parameters :: "(layer \<times> init) list"

definition inverted_residual_setting :: "(int \<times> int \<times> nat \<times> int \<times> bool) list" where
  "inverted_residual_setting =
     [(1, 16, 1, 1, True),
      (6, 24, 2, 2, False),
      (6, 32, 3, 2, False),
      (6, 64, 4, 2, False),
      (6, 96, 3, 1, False),
      (6, 160, 3, 2, False),
      (6, 320, 1, 1, False)]"

definition MobileNetV2_init :: "qcfg \<Rightarrow> int \<Rightarrow> rat \<Rightarrow> error + mobilenet" where
  "MobileNetV2_init q num_classes wm =
     (let input_channel = py_int (32 * wm);
          last_ch = py_int (1280 * max 1 wm);
          feats = [ConvBNReLU_init q 3 input_channel 3 2 1 (Some (q_first_conv_bitw q)) True]
      in case stages_loop q wm inverted_residual_setting (feats, input_channel) of
           Inl e \<Rightarrow> Inl e
         | Inr (feats', input_channel') \<Rightarrow>
             (let fs = feats' @ [ConvBNReLU_init q input_channel' last_ch 1 1 1 None False];
                  cl = [QuantLinear last_ch num_classes (q_last_fc_bitw q) (q_symmetric q)]
              in case weight_initialization (concat (map modules_of fs) @ cl) of
                   Inl e \<Rightarrow> Inl e
                 | Inr ps \<Rightarrow>
                     Inr \<lparr>last_channel = last_ch, features = fs, classifier = cl,
                          parameters = ps\<rparr>))"

text \<open>
  The CIFAR table has no \<^verbatim>\<open>q\<close> column: its blocks are built without
  \<^verbatim>\<open>quant_input\<close>, whose default is \<^verbatim>\<open>True\<close>, and so is the last
  \<^verbatim>\<open>ConvBNReLU\<close>.
\<close>

definition inverted_residual_setting_CIFAR :: "(int \<times> int \<times> nat \<times> int) list" where
  "inverted_residual_setting_CIFAR =
     [(1, 16, 1, 1),
      (6, 24, 2, 1),
      (6, 32, 3, 1),
      (6, 64, 4, 2),
      (6, 96, 3, 1),
      (6, 160, 3, 2),
      (6, 320, 1, 1)]"

definition MobileNetV2_CIFAR_init :: "qcfg \<Rightarrow> int \<Rightarrow> rat \<Rightarrow> error + mobilenet" where
  "MobileNetV2_CIFAR_init q num_classes wm =
     (let input_channel = py_int (32 * wm);
          last_ch = py_int (1280 * max 1 wm);
          feats = [ConvBNReLU_init q 3 input_channel 3 1 1 (Some (q_first_conv_bitw q)) True]
      in case stages_loop q wm
                (map (\<lambda>(t, c, n, s). (t, c, n, s, True)) inverted_residual_setting_CIFAR)
                (feats, input_channel) of
           Inl e \<Rightarrow> Inl e
         | Inr (feats', input_channel') \<Rightarrow>
             (let fs = feats' @ [ConvBNReLU_init q input_channel' last_ch 1 1 1 None True];
                  cl = [QuantLinear last_ch num_classes (q_last_fc_bitw q) (q_symmetric q)]
              in case weight_initialization (concat (map modules_of fs) @ cl) of
                   Inl e \<Rightarrow> Inl e
                 | Inr ps \<Rightarrow>
                     Inr \<lparr>last_channel = last_ch, features = fs, classifier = cl,
                          parameters = ps\<rparr>))"

subsection \<open>\<^verbatim>\<open>set_model\<close>\<close>

text \<open>
  \<^verbatim>\<open>set_model\<close> first assigns the two globals and then looks at the dataset name.
  The model returns the outcome of the call (the exception raised, or the pair of the
  network and the image size) together with the globals after the call.
\<close>

definition set_model ::
    "'a cfg_scheme \<Rightarrow> 'q \<Rightarrow> 'q globals \<Rightarrow> (error + mobilenet \<times> int) \<times> 'q globals" where
  "set_model c qn g =
     (let q = \<lparr>q_bitw = bitw c, q_bita = bita c, q_first_conv_bitw = first_conv_bitw c,
               q_last_fc_bitw = last_fc_bitw c, q_symmetric = symmetric c\<rparr>;
          g' = g\<lparr>g_qnn := Some qn, g_qcfg := Some q\<rparr>
      in if dataset c \<in> set [''cifar10'', ''cifar100'']
         then (case py_int_of_str (drop 5 (dataset c)) of
                 Inl e \<Rightarrow> (Inl e, g')
               | Inr num_classes \<Rightarrow>
                   (case MobileNetV2_CIFAR_init q num_classes (width_mult c) of
                      Inl e \<Rightarrow> (Inl e, g')
                    | Inr model \<Rightarrow> (Inr (model, 32), g')))
         else if dataset c \<in> set [''imagenet'']
         then (case MobileNetV2_init q 1000 (width_mult c) of
                 Inl e \<Rightarrow> (Inl e, g')
               | Inr model \<Rightarrow> (Inr (model, 224), g'))
         else (Inl (Exception ''Undefined dataset for MobileNetV2 architecture.''), g'))"

section \<open>\<^verbatim>\<open>main.py\<close>\<close>

subsection \<open>The trainer\<close>

text \<open>
  The functions that \<^verbatim>\<open>main\<close> registers as hooks. They come from
  \<^verbatim>\<open>classifier.train\<close>, \<^verbatim>\<open>classifier.utils\<close> and \<^verbatim>\<open>utils.FeatureExtractor\<close>
  and are opaque here; \<open>quantizer_hook\<close> stands for whatever a quantizer registers.
\<close>

datatype hook =
    load_init
  | load_resume
  | load_valid
  | save_train
  | save_pred
  | summarize_reports
  | step_lr_epoch
  | step_lr_batch
  | extractor_initialize
  | extractor_check_feature
  | extractor_save_feature
  | quantizer_hook nat

text \<open>
  The class \<^verbatim>\<open>Trainer\<close> (\<^verbatim>\<open>classifier.train\<close>) is not among the sources; what
  follows in this subsection is its description in sections 3, 4.1 and 4.2 of the
  specification. A run is described by the events it produces, for a given number of
  epochs and of batches per epoch; hooks that fail are not modelled.
\<close>

text \<open>
  Modelled from the spec: the hook registry of \<^verbatim>\<open>Trainer\<close>, a mapping from the
  lifecycle location (\<^verbatim>\<open>before_train\<close>, \<^verbatim>\<open>before_epoch\<close>, \<^verbatim>\<open>after_batch\<close>,
  \<^verbatim>\<open>after_epoch\<close>) to an ordered sequence of callables.
\<close>

record trainer =
  hooks :: "string \<Rightarrow> hook list"

text \<open>
  Modelled from the spec: \<^verbatim>\<open>Trainer.register_hooks(loc, func)\<close>, which appends the
  callables to the list of the location and never replaces it.
\<close>

definition register_hooks :: "string \<Rightarrow> hook list \<Rightarrow> trainer \<Rightarrow> trainer" where
  "register_hooks l fs t = t\<lparr>hooks := (hooks t)(l := hooks t l @ fs)\<rparr>"

text \<open>
  Modelled from the spec: the steps of a run of \<^verbatim>\<open>Trainer\<close>, which are the
  invocation of a hook at a location and the processing of a batch.
\<close>

datatype event = Invoke string hook | Batch nat

text \<open>
  Modelled from the spec: running a location of \<^verbatim>\<open>Trainer\<close> invokes every callable
  registered there, in the order of registration.
\<close>

definition run_hooks :: "trainer \<Rightarrow> string \<Rightarrow> event list" where
  "run_hooks t l = map (Invoke l) (hooks t l)"

text \<open>
  Modelled from the spec: one epoch of \<^verbatim>\<open>Trainer\<close>, that is the
  \<^verbatim>\<open>before_epoch\<close> hooks, then for every batch the batch itself followed by the
  \<^verbatim>\<open>after_batch\<close> hooks, then the \<^verbatim>\<open>after_epoch\<close> hooks.
\<close>

definition run_epoch :: "trainer \<Rightarrow> nat \<Rightarrow> event list" where
  "run_epoch t n =
     run_hooks t ''before_epoch''
     @ concat (map (\<lambda>b. Batch b # run_hooks t ''after_batch'') [0..<n])
     @ run_hooks t ''after_epoch''"

text \<open>
  Modelled from the spec: \<^verbatim>\<open>Trainer.train\<close>, which runs the \<^verbatim>\<open>before_train\<close>
  hooks once, before any epoch, and then the epochs.
\<close>

definition train :: "trainer \<Rightarrow> nat \<Rightarrow> nat \<Rightarrow> event list" where
  "train t epochs n = run_hooks t ''before_train'' @ concat (replicate epochs (run_epoch t n))"

text \<open>
  Modelled from the spec: \<^verbatim>\<open>Trainer.validate\<close>, the epochs without
  \<^verbatim>\<open>before_train\<close> hooks.
\<close>

definition validate :: "trainer \<Rightarrow> nat \<Rightarrow> nat \<Rightarrow> event list" where
  "validate t epochs n = concat (replicate epochs (run_epoch t n))"

text \<open>
  Modelled from the spec: \<^verbatim>\<open>Trainer.test\<close>, the epochs without
  \<^verbatim>\<open>before_train\<close> hooks.
\<close>

definition test :: "trainer \<Rightarrow> nat \<Rightarrow> nat \<Rightarrow> event list" where
  "test t epochs n = concat (replicate epochs (run_epoch t n))"

text \<open>
  Modelled from the spec: \<^verbatim>\<open>Trainer.analyze\<close>, the same loop as
  \<^verbatim>\<open>Trainer.validate\<close>.
\<close>

definition analyze :: "trainer \<Rightarrow> nat \<Rightarrow> nat \<Rightarrow> event list" where
  "analyze t epochs n = concat (replicate epochs (run_epoch t n))"

text \<open>
  Modelled from the spec: a \<^verbatim>\<open>Trainer\<close> on which nothing has been registered yet.
\<close>

definition new_trainer :: trainer where
  "new_trainer = \<lparr>hooks = (\<lambda>l. [])\<rparr>"

subsection \<open>The run section of \<^verbatim>\<open>main\<close>\<close>

text \<open>
  The quantizer module selected by \<^verbatim>\<open>cfg.quantization\<close>: its layer factory
  \<^verbatim>\<open>qnn\<close> and, for some quantizers only, a function \<^verbatim>\<open>add_hooks\<close>, which
  receives the trainer and may change it in any way.
\<close>

record 'q quantizer =
  qnn :: 'q
  add_hooks :: "(trainer \<Rightarrow> trainer) option"

text \<open>
  Lines 21 to 56 of \<^verbatim>\<open>main\<close> build the collaborators (logger, model, optimizer,
  loaders, trainer). From line 58 on, \<^verbatim>\<open>main\<close> only calls the trainer and the
  quantizer; the model of \<^verbatim>\<open>main\<close> is the sequence of these calls, in program
  order. A \<^verbatim>\<open>run_type\<close> that is none of the four strings makes no call.
\<close>

datatype call =
    Register_hooks string "hook list"
  | Add_hooks
  | Train
  | Validate
  | Test
  | Analyze

definition main :: "'a cfg_scheme \<Rightarrow> ('q, 'b) quantizer_scheme \<Rightarrow> call list" where
  "main c quantizer =
     (if run_type c = ''train'' then
        (case load c of
           None \<Rightarrow> []
         | Some path \<Rightarrow>
             (if \<not> resume c then [Register_hooks ''before_train'' [load_init]]
              else [Register_hooks ''before_train'' [load_resume]]))
        @ (if step_location c = ''epoch''
           then [Register_hooks ''after_epoch'' [step_lr_epoch]]
           else [Register_hooks ''after_batch'' [step_lr_batch]])
        @ [Register_hooks ''after_epoch'' [save_train, summarize_reports]]
        @ (if add_hooks quantizer \<noteq> None then [Add_hooks] else [])
        @ [Train]
      else if run_type c = ''validate'' then
        [Register_hooks ''before_epoch'' [load_valid],
         Register_hooks ''after_epoch'' [summarize_reports],
         Validate]
      else if run_type c = ''test'' then
        [Register_hooks ''before_epoch'' [load_valid],
         Register_hooks ''after_epoch'' [save_pred],
         Test]
      else if run_type c = ''analyze'' then
        [Register_hooks ''before_epoch'' [load_valid],
         Register_hooks ''before_epoch'' [extractor_initialize],
         Register_hooks ''after_batch'' [extractor_check_feature],
         Register_hooks ''after_epoch'' [extractor_save_feature],
         Analyze]
      else [])"

text \<open>
  What a call does to the trainer and to the events seen so far, for a run of
  \<open>epochs\<close> epochs of \<open>n\<close> batches; \<open>run_main\<close> performs the calls of
  \<^verbatim>\<open>main\<close> on the trainer that line 50 has built. \<^verbatim>\<open>main\<close> calls
  \<^verbatim>\<open>add_hooks\<close> only on a quantizer that has it.
\<close>

fun perform ::
    "(trainer \<Rightarrow> trainer) option \<Rightarrow> nat \<Rightarrow> nat \<Rightarrow> trainer \<times> event list \<Rightarrow> call
      \<Rightarrow> trainer \<times> event list" where
  "perform f epochs n (t, evs) (Register_hooks l fs) = (register_hooks l fs t, evs)"
| "perform f epochs n (t, evs) Add_hooks = (case f of Some h \<Rightarrow> (h t, evs) | None \<Rightarrow> (t, evs))"
| "perform f epochs n (t, evs) Train = (t, evs @ train t epochs n)"
| "perform f epochs n (t, evs) Validate = (t, evs @ validate t epochs n)"
| "perform f epochs n (t, evs) Test = (t, evs @ test t epochs n)"
| "perform f epochs n (t, evs) Analyze = (t, evs @ analyze t epochs n)"

definition run_main ::
    "'a cfg_scheme \<Rightarrow> ('q, 'b) quantizer_scheme \<Rightarrow> trainer \<Rightarrow> nat \<Rightarrow> nat
      \<Rightarrow> trainer \<times> event list" where
  "run_main c quantizer t epochs n =
     foldl (perform (add_hooks quantizer) epochs n) (t, []) (main c quantizer)"

text \<open>The scheduler-step hooks, and the calls and events that concern them.\<close>

definition is_step :: "hook \<Rightarrow> bool" where
  "is_step h = (h = step_lr_epoch \<or> h = step_lr_batch)"

definition registers_step :: "call \<Rightarrow> bool" where
  "registers_step k = (case k of Register_hooks l fs \<Rightarrow> list_ex is_step fs | _ \<Rightarrow> False)"

definition is_step_event :: "event \<Rightarrow> bool" where
  "is_step_event ev = (case ev of Invoke l h \<Rightarrow> is_step h | Batch b \<Rightarrow> False)"


section \<open>Auxiliary notions and concrete inputs\<close>


text \<open>
  A configuration, the module state before \<^verbatim>\<open>set_model\<close> has ever run, and a
  quantizer whose \<^verbatim>\<open>add_hooks\<close> registers one hook of its own; they are the
  concrete inputs of the examples below.
\<close>

definition example_cfg :: cfg where
  "example_cfg =
     \<lparr>arch = ''mobilenetv2'', layers = 0, width_mult = 1, dataset = ''cifar10'',
      bitw = 4, bita = 4, first_conv_bitw = 8, last_fc_bitw = 8, symmetric = False,
      run_type = ''train'', load = None, resume = False, step_location = ''epoch''\<rparr>"

definition example_qcfg :: qcfg where
  "example_qcfg =
     \<lparr>q_bitw = 4, q_bita = 4, q_first_conv_bitw = 8, q_last_fc_bitw = 8,
      q_symmetric = False\<rparr>"

definition unset_globals :: "unit globals" where
  "unset_globals = \<lparr>g_qnn = None, g_qcfg = None\<rparr>"

definition example_quantizer :: "unit quantizer" where
  "example_quantizer =
     \<lparr>qnn = (), add_hooks = Some (register_hooks ''before_epoch'' [quantizer_hook 0])\<rparr>"

section \<open>Properties of \<^verbatim>\<open>set_arch_name\<close>\<close>

lemma str_int_50: "str_int 50 = ''50''"
  by code_simp

lemma str_float_half: "str_float (1 / 2) = ''0.5''"
  by code_simp

text \<open>
  Claim C7. The architecture name is a function of the configuration only. For
  \<^verbatim>\<open>arch = "resnet"\<close> with \<^verbatim>\<open>layers = 50\<close> it is \<^verbatim>\<open>"resnet-50"\<close>; for
  \<^verbatim>\<open>arch = "mobilenetv2"\<close> with \<^verbatim>\<open>width_mult = 1.0\<close> it is \<^verbatim>\<open>"mobilenetv2"\<close>,
  with \<^verbatim>\<open>width_mult = 0.5\<close> it is \<^verbatim>\<open>"mobilenetv2x0.5"\<close>; and for
  \<^verbatim>\<open>mobilenetv2\<close> the suffix \<^verbatim>\<open>x<width_mult>\<close> is there exactly when
  \<^verbatim>\<open>width_mult\<close> differs from 1.0. The other fields of the configuration are
  arbitrary.
\<close>

theorem set_arch_name_examples:
  "set_arch_name (c\<lparr>arch := ''resnet'', layers := 50\<rparr>) = ''resnet-50''
   \<and> set_arch_name (c\<lparr>arch := ''mobilenetv2'', width_mult := 1\<rparr>) = ''mobilenetv2''
   \<and> set_arch_name (c\<lparr>arch := ''mobilenetv2'', width_mult := 1 / 2\<rparr>) = ''mobilenetv2x0.5''
   \<and> set_arch_name (c\<lparr>arch := ''mobilenetv2''\<rparr>) =
       (if width_mult c = 1 then ''mobilenetv2''
        else ''mobilenetv2x'' @ str_float (width_mult c))"
  by (simp add: set_arch_name_def str_int_50 str_float_half)


section \<open>Blocks\<close>

lemma tensor_not_own_sum: "y \<noteq> Add x y"
proof
  assume "y = Add x y"
  then have "size y = size (Add x y)" by simp
  then show False by simp
qed

text \<open>
  Claim C1. An \<^verbatim>\<open>InvertedResidual\<close> block built from \<^verbatim>\<open>inp\<close>, \<^verbatim>\<open>oup\<close> and a
  stride in \<open>{1, 2}\<close> is constructed, and its forward pass returns \<open>x + conv(x)\<close> if
  and only if \<open>stride = 1\<close> and \<open>inp = oup\<close>; otherwise it returns \<open>conv(x)\<close>.
\<close>

theorem InvertedResidual_skip_iff:
  assumes "strd \<in> set [1, 2]"
  shows "case InvertedResidual_init q inp oup strd t qi of
           Inl e \<Rightarrow> False
         | Inr blk \<Rightarrow>
             use_res_connect blk = (strd = 1 \<and> inp = oup)
             \<and> (forward blk x = Add x (sequential (conv_seq blk) x)) = (strd = 1 \<and> inp = oup)
             \<and> (forward blk x = sequential (conv_seq blk) x) = (\<not> (strd = 1 \<and> inp = oup))"
  using assms tensor_not_own_sum [of "sequential _ x" x]
    tensor_not_own_sum [of "sequential _ x" x, symmetric]
  by (auto simp: InvertedResidual_init_def Let_def)

theorem InvertedResidual_skip_iff_witness:
  "(case InvertedResidual_init example_qcfg 24 24 1 6 False of
      Inl e \<Rightarrow> False
    | Inr blk \<Rightarrow> forward blk (Input 0) = Add (Input 0) (sequential (conv_seq blk) (Input 0)))
   \<and> (case InvertedResidual_init example_qcfg 16 24 2 6 False of
      Inl e \<Rightarrow> False
    | Inr blk \<Rightarrow> forward blk (Input 0) = sequential (conv_seq blk) (Input 0))"
proof -
  have h1: "(1::int) \<in> set [1, 2]" and h2: "(2::int) \<in> set [1, 2]" by simp_all
  show ?thesis
    using InvertedResidual_skip_iff [OF h1, where q = example_qcfg and inp = 24 and oup = 24
          and t = 6 and qi = False and x = "Input 0"]
      InvertedResidual_skip_iff [OF h2, where q = example_qcfg and inp = 16 and oup = 24
          and t = 6 and qi = False and x = "Input 0"]
    by (simp split: sum.splits)
qed

text \<open>
  Claim C10. The forward pass of a \<^verbatim>\<open>ConvBNReLU\<close> block applies the quantizing
  identity to the input before the convolution if and only if the block was constructed
  with \<^verbatim>\<open>quant_input=False\<close>. Constructed with \<^verbatim>\<open>quant_input=True\<close> the block has
  no attribute \<^verbatim>\<open>quant_act\<close> and \<open>forward(x) = relu6(bn(conv(x)))\<close>.
\<close>

theorem ConvBNReLU_quant_input:
  "forward (ConvBNReLU_init q i oc k s g bw quant_input) x =
     (let c = conv2d q i oc k s (if k > 1 then (k - 1) div 2 else 0) g False bw
      in if quant_input
         then Apply (relu6 q False) (Apply (BatchNorm2d oc) (Apply c x))
         else Apply (relu6 q False) (Apply (BatchNorm2d oc) (Apply c (Apply (identity q bw) x))))
   \<and> (quant_act (ConvBNReLU_init q i oc k s g bw quant_input) = None) = quant_input
   \<and> (quant_act (ConvBNReLU_init q i oc k s g bw quant_input) = Some (identity q bw))
       = (\<not> quant_input)"
  by (simp add: ConvBNReLU_init_def Let_def)

section \<open>\<^verbatim>\<open>set_model\<close> on an unknown dataset\<close>

text \<open>
  Claim C2. When the dataset name is none of \<^verbatim>\<open>cifar10\<close>, \<^verbatim>\<open>cifar100\<close> and
  \<^verbatim>\<open>imagenet\<close>, \<^verbatim>\<open>set_model\<close> raises its exception
  \<^verbatim>\<open>Undefined dataset for MobileNetV2 architecture.\<close> and returns no model.
\<close>

theorem set_model_unknown_dataset:
  assumes "dataset c \<notin> set [''cifar10'', ''cifar100'', ''imagenet'']"
  shows "fst (set_model c qn g) =
           Inl (Exception ''Undefined dataset for MobileNetV2 architecture.'')"
  using assms by (simp add: set_model_def Let_def)

theorem set_model_unknown_dataset_witness:
  "fst (set_model (example_cfg\<lparr>dataset := ''mnist''\<rparr>) () unset_globals) =
     Inl (Exception ''Undefined dataset for MobileNetV2 architecture.'')"
proof -
  have h: "dataset (example_cfg\<lparr>dataset := ''mnist''\<rparr>)
             \<notin> set [''cifar10'', ''cifar100'', ''imagenet'']"
    by simp
  show ?thesis
    using set_model_unknown_dataset [OF h] .
qed

text \<open>
  Claim C9. A call of \<^verbatim>\<open>set_model\<close> with an unknown dataset name fails, and yet
  the globals \<^verbatim>\<open>qnn\<close> and \<^verbatim>\<open>qcfg\<close> have been overwritten from the arguments:
  after the call they hold the quantizer module and the five values of the configuration,
  whatever they held before.
\<close>

theorem set_model_failure_writes_globals:
  assumes "dataset c \<notin> set [''cifar10'', ''cifar100'', ''imagenet'']"
  shows "set_model c qn g =
           (Inl (Exception ''Undefined dataset for MobileNetV2 architecture.''),
            g\<lparr>g_qnn := Some qn,
              g_qcfg := Some \<lparr>q_bitw = bitw c, q_bita = bita c,
                              q_first_conv_bitw = first_conv_bitw c,
                              q_last_fc_bitw = last_fc_bitw c,
                              q_symmetric = symmetric c\<rparr>\<rparr>)"
  using assms by (simp add: set_model_def Let_def)

theorem set_model_failure_writes_globals_witness:
  "set_model (example_cfg\<lparr>dataset := ''mnist''\<rparr>) () unset_globals =
     (Inl (Exception ''Undefined dataset for MobileNetV2 architecture.''),
      \<lparr>g_qnn = Some (),
       g_qcfg = Some \<lparr>q_bitw = 4, q_bita = 4, q_first_conv_bitw = 8, q_last_fc_bitw = 8,
                       q_symmetric = False\<rparr>\<rparr>)
   \<and> snd (set_model (example_cfg\<lparr>dataset := ''mnist''\<rparr>) () unset_globals) \<noteq> unset_globals"
proof -
  have h: "dataset (example_cfg\<lparr>dataset := ''mnist''\<rparr>)
             \<notin> set [''cifar10'', ''cifar100'', ''imagenet'']"
    by simp
  show ?thesis
    using set_model_failure_writes_globals [OF h, of "()" unset_globals]
    by (simp add: example_cfg_def unset_globals_def)
qed

section \<open>Construction of the networks\<close>











lemma weight_initialization_sound:
  "weight_initialization ls = Inr ps \<Longrightarrow>
     map fst ps = ls \<and> list_all (\<lambda>(l, p). init_module l = Inr p) ps"
  by (induction ls arbitrary: ps) (auto split: sum.splits)





lemma MobileNetV2_init_parameters:
  "MobileNetV2_init q nc wm = Inr m \<Longrightarrow>
     weight_initialization (concat (map modules_of (features m)) @ classifier m)
       = Inr (parameters m)"
  by (auto simp: MobileNetV2_init_def Let_def split: sum.splits prod.splits)

lemma MobileNetV2_CIFAR_init_parameters:
  "MobileNetV2_CIFAR_init q nc wm = Inr m \<Longrightarrow>
     weight_initialization (concat (map modules_of (features m)) @ classifier m)
       = Inr (parameters m)"
  by (auto simp: MobileNetV2_CIFAR_init_def Let_def split: sum.splits prod.splits)

lemma num_classes:
  "py_int_of_str ''10'' = Inr 10"
  "py_int_of_str ''100'' = Inr 100"
  by code_simp+

lemma init_module_rule:
  "init_module m = Inr p \<Longrightarrow>
     (case m of
        QuantConv2d ic oc ks st pd gr b nb sy \<Rightarrow>
          p = Init (Normal (Exact 0) (Sqrt (2 / of_int (fst ks * snd ks * oc))))
                   (if b then Some Zeros else None)
          \<and> variance (weight p) = 2 / of_int (fst ks * snd ks * oc)
      | BatchNorm2d f \<Rightarrow> p = Init Ones (Some Zeros)
      | QuantLinear fi fo nb sy \<Rightarrow>
          p = Init (Normal (Exact 0) (Exact (1 / 100))) (Some Zeros)
          \<and> variance (weight p) = 1 / 10000
      | _ \<Rightarrow> p = Untouched)"
  by (cases m) (auto simp: init_module_def Let_def variance_def split: if_splits)

lemma set_model_Inr:
  assumes "fst (set_model c qn g) = Inr (model, image_size)"
  shows "weight_initialization (concat (map modules_of (features model)) @ classifier model)
           = Inr (parameters model)"
  using assms
  by (auto simp: set_model_def Let_def
      dest: MobileNetV2_init_parameters MobileNetV2_CIFAR_init_parameters
      split: if_splits sum.splits)

lemma variance_is_square_of_std:
  "(value_of (Exact r))\<^sup>2 = of_rat (variance (Normal m (Exact r)))"
  "0 \<le> r \<Longrightarrow> (value_of (Sqrt r))\<^sup>2 = of_rat (variance (Normal m (Sqrt r)))"
  by (simp_all add: value_of_def variance_def power2_eq_square of_rat_mult)

section \<open>\<^verbatim>\<open>set_model\<close> on a recognised dataset\<close>




section \<open>Weight initialisation\<close>

lemma sqrt_144: "value_of (Sqrt (1 / 144)) = 1 / 12"
proof -
  have "sqrt (1 / 144) = sqrt ((1 / 12)\<^sup>2)" by (simp add: power2_eq_square)
  also have "\<dots> = 1 / 12" by (simp del: power_divide one_power2)
  finally show ?thesis by (simp add: value_of_def of_rat_divide)
qed

text \<open>
  Claim C8, as stated, writes both distributions as \<open>N(0, v)\<close>: \<open>v = 2/(k\<^sup>2 \<cdot> out)\<close> for
  a convolution and \<open>v = 0.01\<close> for the linear layer. No single reading of the second
  parameter fits the code. In the network built for the example configuration, the first
  convolution (3x3, 32 output channels) is drawn with standard deviation
  \<open>sqrt (2/288) = 1/12\<close>, which is not \<open>2/288\<close>; and the linear layer is drawn with
  standard deviation \<open>0.01\<close>, so its variance is \<open>0.0001\<close> and not \<open>0.01\<close>.
\<close>

theorem normal_second_parameter_readings:
  "\<not> isl (fst (set_model example_cfg () unset_globals))
   \<and> hd (parameters (fst (projr (fst (set_model example_cfg () unset_globals))))) =
       (QuantConv2d 3 32 (3, 3) 1 1 1 False 8 False,
        Init (Normal (Exact 0) (Sqrt (1 / 144))) None)
   \<and> last (parameters (fst (projr (fst (set_model example_cfg () unset_globals))))) =
       (QuantLinear 1280 10 8 False,
        Init (Normal (Exact 0) (Exact (1 / 100))) (Some Zeros))
   \<and> value_of (Sqrt (1 / 144)) \<noteq> 2 / (3 * 3 * 32)
   \<and> variance (Normal (Exact 0) (Exact (1 / 100))) \<noteq> 1 / 100"
proof -
  have a: "\<not> isl (fst (set_model example_cfg () unset_globals))
   \<and> hd (parameters (fst (projr (fst (set_model example_cfg () unset_globals))))) =
       (QuantConv2d 3 32 (3, 3) 1 1 1 False 8 False,
        Init (Normal (Exact 0) (Sqrt (1 / 144))) None)
   \<and> last (parameters (fst (projr (fst (set_model example_cfg () unset_globals))))) =
       (QuantLinear 1280 10 8 False,
        Init (Normal (Exact 0) (Exact (1 / 100))) (Some Zeros))"
    by code_simp
  have b: "value_of (Sqrt (1 / 144)) \<noteq> 2 / (3 * 3 * 32)"
    by (simp add: sqrt_144)
  have c: "variance (Normal (Exact 0) (Exact (1 / 100))) \<noteq> 1 / 100"
    by (simp add: variance_def)
  from a b c show ?thesis by blast
qed

text \<open>
  Claim C8, amended. In every model that \<^verbatim>\<open>set_model\<close> returns, every layer has
  been visited by the weight initialisation, and: the weight of every quantized
  convolution is drawn from the normal distribution with mean 0 and standard deviation
  \<open>sqrt (2 / (kernel_area \<cdot> out_channels))\<close>, that is variance
  \<open>2 / (kernel_area \<cdot> out_channels)\<close>, and its bias, if it has one, is set to zero;
  every batch-norm layer has weight one and bias zero; the weight of every quantized
  linear layer is drawn from the normal distribution with mean 0 and standard deviation
  \<open>0.01\<close>, that is variance \<open>0.0001\<close>, and its bias is set to zero; the other layers
  are left as constructed. Which distribution a parameter is drawn from is a function
  of the configuration alone, so that the initialisation is deterministic given a fixed
  random seed upstream; the draws themselves belong to the tensor library.
\<close>

theorem weight_initialization_rule:
  assumes "fst (set_model c qn g) = Inr (model, image_size)"
  shows "map fst (parameters model) = concat (map modules_of (features model)) @ classifier model
         \<and> list_all (\<lambda>(m, p). case m of
               QuantConv2d ic oc ks st pd gr b nb sy \<Rightarrow>
                 p = Init (Normal (Exact 0) (Sqrt (2 / of_int (fst ks * snd ks * oc))))
                          (if b then Some Zeros else None)
                 \<and> variance (weight p) = 2 / of_int (fst ks * snd ks * oc)
             | BatchNorm2d f \<Rightarrow> p = Init Ones (Some Zeros)
             | QuantLinear fi fo nb sy \<Rightarrow>
                 p = Init (Normal (Exact 0) (Exact (1 / 100))) (Some Zeros)
                 \<and> variance (weight p) = 1 / 10000
             | _ \<Rightarrow> p = Untouched) (parameters model)"
proof -
  from weight_initialization_sound [OF set_model_Inr [OF assms]]
  have a: "map fst (parameters model) = concat (map modules_of (features model)) @ classifier model"
    and b: "list_all (\<lambda>(l, p). init_module l = Inr p) (parameters model)"
    by simp_all
  from b show ?thesis
    unfolding list_all_iff using a init_module_rule by fastforce
qed

theorem weight_initialization_rule_witness:
  "\<not> isl (fst (set_model example_cfg () unset_globals))
   \<and> map fst (parameters (fst (projr (fst (set_model example_cfg () unset_globals))))) =
       concat (map modules_of
                 (features (fst (projr (fst (set_model example_cfg () unset_globals))))))
       @ classifier (fst (projr (fst (set_model example_cfg () unset_globals))))
   \<and> list_all (\<lambda>(m, p). case m of
               QuantConv2d ic oc ks st pd gr b nb sy \<Rightarrow>
                 p = Init (Normal (Exact 0) (Sqrt (2 / of_int (fst ks * snd ks * oc))))
                          (if b then Some Zeros else None)
                 \<and> variance (weight p) = 2 / of_int (fst ks * snd ks * oc)
             | BatchNorm2d f \<Rightarrow> p = Init Ones (Some Zeros)
             | QuantLinear fi fo nb sy \<Rightarrow>
                 p = Init (Normal (Exact 0) (Exact (1 / 100))) (Some Zeros)
                 \<and> variance (weight p) = 1 / 10000
             | _ \<Rightarrow> p = Untouched)
        (parameters (fst (projr (fst (set_model example_cfg () unset_globals)))))"
proof -
  have a: "\<not> isl (fst (set_model example_cfg () unset_globals))" by code_simp
  then obtain model image_size where
    m: "fst (set_model example_cfg () unset_globals) = Inr (model, image_size)"
    by (cases "fst (set_model example_cfg () unset_globals)") auto
  have eq: "fst (projr (fst (set_model example_cfg () unset_globals))) = model"
    by (simp add: m)
  show ?thesis
    unfolding eq using a weight_initialization_rule [OF m] by blast
qed

section \<open>Hooks registered by \<^verbatim>\<open>main\<close>\<close>

lemma concat_replicate_singleton: "concat (replicate n [x]) = replicate n x"
  by (induction n) simp_all

lemma concat_map_const: "concat (map (\<lambda>b. xs) [0..<n]) = concat (replicate n xs)"
  by (simp add: map_replicate_const)

lemma concat_replicate_replicate: "concat (replicate e (replicate n x)) = replicate (e * n) x"
  by (induction e) (simp_all add: replicate_add)

lemma step_events_run_hooks:
  "filter is_step_event (run_hooks t l) = map (Invoke l) (filter is_step (hooks t l))"
  by (simp add: run_hooks_def filter_map comp_def is_step_event_def)

lemma step_events_run_epoch:
  "filter is_step_event (run_epoch t n) =
     map (Invoke ''before_epoch'') (filter is_step (hooks t ''before_epoch''))
     @ concat (replicate n (map (Invoke ''after_batch'') (filter is_step (hooks t ''after_batch''))))
     @ map (Invoke ''after_epoch'') (filter is_step (hooks t ''after_epoch''))"
  by (simp add: run_epoch_def filter_concat comp_def step_events_run_hooks is_step_event_def
      concat_map_const)

lemma step_events_train:
  "filter is_step_event (train t epochs n) =
     map (Invoke ''before_train'') (filter is_step (hooks t ''before_train''))
     @ concat (replicate epochs (filter is_step_event (run_epoch t n)))"
  by (simp add: train_def filter_concat step_events_run_hooks map_replicate)

text \<open>The calls of main in train mode, and the trainer they leave behind.\<close>

lemma run_main_train:
  "run_main (c\<lparr>run_type := ''train''\<rparr>) quantizer t epochs n =
     (let t1 = (case load c of
                  None \<Rightarrow> t
                | Some path \<Rightarrow>
                    register_hooks ''before_train'' [if \<not> resume c then load_init else load_resume] t);
          t2 = (if step_location c = ''epoch''
                then register_hooks ''after_epoch'' [step_lr_epoch] t1
                else register_hooks ''after_batch'' [step_lr_batch] t1);
          t3 = register_hooks ''after_epoch'' [save_train, summarize_reports] t2;
          t4 = (case add_hooks quantizer of None \<Rightarrow> t3 | Some f \<Rightarrow> f t3)
      in (t4, train t4 epochs n))"
  by (cases "load c"; cases "add_hooks quantizer")
     (simp_all add: run_main_def main_def Let_def)

lemma step_hooks_after_main:
  assumes "\<forall>l. filter is_step (hooks t l) = []"
    and "\<forall>f t' l. add_hooks quantizer = Some f \<longrightarrow>
           filter is_step (hooks (f t') l) = filter is_step (hooks t' l)"
  shows "filter is_step (hooks (fst (run_main (c\<lparr>run_type := ''train''\<rparr>) quantizer t epochs n)) l) =
           (if step_location c = ''epoch''
            then (if l = ''after_epoch'' then [step_lr_epoch] else [])
            else (if l = ''after_batch'' then [step_lr_batch] else []))"
  using assms
  by (cases "load c"; cases "add_hooks quantizer")
     (auto simp: run_main_train Let_def register_hooks_def is_step_def)

text \<open>
  Claim C3. In train mode \<^verbatim>\<open>main\<close> registers exactly one scheduler-step hook:
  \<^verbatim>\<open>step_lr_epoch\<close> at \<^verbatim>\<open>after_epoch\<close> when \<^verbatim>\<open>step_location\<close> is
  \<^verbatim>\<open>epoch\<close>, and \<^verbatim>\<open>step_lr_batch\<close> at \<^verbatim>\<open>after_batch\<close> for any other value.
  On a trainer that had no scheduler-step hook when it was built, and with a quantizer
  whose \<^verbatim>\<open>add_hooks\<close> (if it has one) leaves the scheduler-step hooks alone, the
  scheduler step then runs once per epoch and after no batch in the first case, and once
  per batch and after no epoch in the second.
\<close>

theorem scheduler_step_hook_location:
  assumes "\<forall>l. filter is_step (hooks t l) = []"
    and "\<forall>f t' l. add_hooks quantizer = Some f \<longrightarrow>
           filter is_step (hooks (f t') l) = filter is_step (hooks t' l)"
  shows "filter registers_step (main (c\<lparr>run_type := ''train''\<rparr>) quantizer) =
           [if step_location c = ''epoch''
            then Register_hooks ''after_epoch'' [step_lr_epoch]
            else Register_hooks ''after_batch'' [step_lr_batch]]
         \<and> filter is_step_event
             (run_epoch (fst (run_main (c\<lparr>run_type := ''train''\<rparr>) quantizer t epochs n)) n) =
           (if step_location c = ''epoch''
            then [Invoke ''after_epoch'' step_lr_epoch]
            else replicate n (Invoke ''after_batch'' step_lr_batch))
         \<and> filter is_step_event
             (snd (run_main (c\<lparr>run_type := ''train''\<rparr>) quantizer t epochs n)) =
           (if step_location c = ''epoch''
            then replicate epochs (Invoke ''after_epoch'' step_lr_epoch)
            else replicate (epochs * n) (Invoke ''after_batch'' step_lr_batch))"
proof -
  let ?t = "fst (run_main (c\<lparr>run_type := ''train''\<rparr>) quantizer t epochs n)"
  note h = step_hooks_after_main [OF assms, of c epochs n]
  have reg: "filter registers_step (main (c\<lparr>run_type := ''train''\<rparr>) quantizer) =
           [if step_location c = ''epoch''
            then Register_hooks ''after_epoch'' [step_lr_epoch]
            else Register_hooks ''after_batch'' [step_lr_batch]]"
    by (cases "load c")
       (simp_all add: main_def registers_step_def is_step_def)
  have ep: "filter is_step_event (run_epoch ?t n) =
           (if step_location c = ''epoch''
            then [Invoke ''after_epoch'' step_lr_epoch]
            else replicate n (Invoke ''after_batch'' step_lr_batch))"
    by (simp add: step_events_run_epoch h concat_replicate_singleton)
  have sn: "snd (run_main (c\<lparr>run_type := ''train''\<rparr>) quantizer t epochs n) = train ?t epochs n"
    by (simp add: run_main_train Let_def)
  have tr: "filter is_step_event (train ?t epochs n) =
           (if step_location c = ''epoch''
            then replicate epochs (Invoke ''after_epoch'' step_lr_epoch)
            else replicate (epochs * n) (Invoke ''after_batch'' step_lr_batch))"
    by (simp add: step_events_train ep h concat_replicate_singleton concat_replicate_replicate)
  from reg ep sn tr show ?thesis by simp
qed

theorem scheduler_step_hook_location_witness:
  "filter is_step_event (snd (run_main example_cfg example_quantizer new_trainer 2 3)) =
     [Invoke ''after_epoch'' step_lr_epoch, Invoke ''after_epoch'' step_lr_epoch]
   \<and> filter is_step_event
       (snd (run_main (example_cfg\<lparr>step_location := ''batch''\<rparr>) example_quantizer new_trainer 2 3)) =
     replicate 6 (Invoke ''after_batch'' step_lr_batch)"
proof -
  have h1: "\<forall>l. filter is_step (hooks new_trainer l) = []"
    by (simp add: new_trainer_def)
  have h2: "\<forall>f t' l. add_hooks example_quantizer = Some f \<longrightarrow>
           filter is_step (hooks (f t') l) = filter is_step (hooks t' l)"
    by (auto simp: example_quantizer_def register_hooks_def is_step_def)
  have e: "example_cfg\<lparr>run_type := ''train''\<rparr> = example_cfg"
    "example_cfg\<lparr>step_location := ''batch'', run_type := ''train''\<rparr>
       = example_cfg\<lparr>step_location := ''batch''\<rparr>"
    by (simp_all add: example_cfg_def)
  show ?thesis
    using scheduler_step_hook_location [OF h1 h2, of example_cfg 2 3]
      scheduler_step_hook_location [OF h1 h2, of "example_cfg\<lparr>step_location := ''batch''\<rparr>" 2 3]
    by (simp add: e example_cfg_def numeral_eq_Suc)
qed




text \<open>
  Claim C6. In analyze mode \<^verbatim>\<open>main\<close> registers \<^verbatim>\<open>load_valid\<close> and then
  \<^verbatim>\<open>extractor.initialize\<close> at \<^verbatim>\<open>before_epoch\<close>,
  \<^verbatim>\<open>extractor.check_feature\<close> at \<^verbatim>\<open>after_batch\<close> and
  \<^verbatim>\<open>extractor.save_feature\<close> at \<^verbatim>\<open>after_epoch\<close>, each appended to what the
  trainer already had there. On a new trainer an epoch of \<open>n\<close> batches therefore
  invokes: the checkpoint load, the initialisation of the capture buffer, then for each
  of the \<open>n\<close> batches the batch followed by one accumulation, and at the end one flush.
\<close>

theorem analyze_hook_order:
  "main (c\<lparr>run_type := ''analyze''\<rparr>) quantizer =
     [Register_hooks ''before_epoch'' [load_valid],
      Register_hooks ''before_epoch'' [extractor_initialize],
      Register_hooks ''after_batch'' [extractor_check_feature],
      Register_hooks ''after_epoch'' [extractor_save_feature],
      Analyze]
   \<and> hooks (fst (run_main (c\<lparr>run_type := ''analyze''\<rparr>) quantizer t epochs n)) =
       (hooks t)
         (''before_epoch'' := hooks t ''before_epoch'' @ [load_valid, extractor_initialize],
          ''after_batch'' := hooks t ''after_batch'' @ [extractor_check_feature],
          ''after_epoch'' := hooks t ''after_epoch'' @ [extractor_save_feature])
   \<and> run_epoch (fst (run_main (c\<lparr>run_type := ''analyze''\<rparr>) quantizer new_trainer epochs n)) n =
       [Invoke ''before_epoch'' load_valid, Invoke ''before_epoch'' extractor_initialize]
       @ concat (map (\<lambda>b. [Batch b, Invoke ''after_batch'' extractor_check_feature]) [0..<n])
       @ [Invoke ''after_epoch'' extractor_save_feature]
   \<and> snd (run_main (c\<lparr>run_type := ''analyze''\<rparr>) quantizer new_trainer epochs n) =
       concat (replicate epochs
         ([Invoke ''before_epoch'' load_valid, Invoke ''before_epoch'' extractor_initialize]
          @ concat (map (\<lambda>b. [Batch b, Invoke ''after_batch'' extractor_check_feature]) [0..<n])
          @ [Invoke ''after_epoch'' extractor_save_feature]))"
  by (auto simp: main_def run_main_def register_hooks_def new_trainer_def run_epoch_def
      run_hooks_def analyze_def fun_eq_iff)

end
